theory Spec2Isabelle
  imports Complex_Main "HOL-Library.Sublist"
begin

section \<open>Python values used by the backend\<close>

text \<open>
  A Python \<open>str\<close> is modelled as a \<open>string\<close>, a list of characters, and \<open>len\<close> as the
  length of that list. HOL's \<open>char\<close> has 256 values, so the model covers texts over the
  code points 0..255 (ASCII and Latin-1), one \<open>char\<close> per code point.

  Exceptions are values: every function that can raise returns \<open>py_error + 'a\<close>.
\<close>

datatype py_error =
    ValueError string
  | KeyError string
  | IndexError
  | TypeError
  | PyException string

section \<open>\<open>backend/pdf_parser.py\<close>: the chunker\<close>

text \<open>\<open>text.replace('\n', ' ')\<close>\<close>

definition replace_newlines :: "string \<Rightarrow> string" where
  "replace_newlines text = map (\<lambda>c. if c = CHR 0x0A then CHR '' '' else c) text"

text \<open>
  \<open>s.split('. ')\<close>: the text is cut at the non-overlapping occurrences of the separator,
  found from left to right; the result always has at least one element.
\<close>

fun split_dot_space :: "string \<Rightarrow> string list" where
  "split_dot_space [] = [[]]"
| "split_dot_space [c] = [[c]]"
| "split_dot_space (c # d # cs) =
     (if c = CHR ''.'' \<and> d = CHR '' '' then [] # split_dot_space cs
      else (case split_dot_space (d # cs) of
              [] \<Rightarrow> [[c]]
            | r # rs \<Rightarrow> (c # r) # rs))"

text \<open>
  The first loop of \<open>_split_text_into_chunks\<close>: sentences are packed into
  \<open>current_chunk\<close>; the state is \<open>(chunks, current_chunk)\<close>.
\<close>

fun pack_sentences :: "int \<Rightarrow> string list \<Rightarrow> string list \<Rightarrow> string \<Rightarrow> string list \<times> string" where
  "pack_sentences chunk_size [] chunks current_chunk = (chunks, current_chunk)"
| "pack_sentences chunk_size (sentence # sentences) chunks current_chunk =
     (if int (length current_chunk) + int (length sentence) > chunk_size \<and> current_chunk \<noteq> []
      then pack_sentences chunk_size sentences (chunks @ [current_chunk]) (sentence @ ''. '')
      else pack_sentences chunk_size sentences chunks (current_chunk @ sentence @ ''. ''))"

text \<open>
  \<open>for i in range(0, len(chunk), chunk_size): final_chunks.append(chunk[i:i + chunk_size])\<close>
  for a positive step; \<open>i\<close> is the loop variable.
\<close>

function slices :: "string \<Rightarrow> nat \<Rightarrow> nat \<Rightarrow> string list" where
  "slices chunk step i =
     (if step = 0 then []
      else if i < length chunk then take step (drop i chunk) # slices chunk step (i + step)
      else [])"
  by pat_completeness auto
termination
  by (relation "measure (\<lambda>(chunk, step, i). length chunk - i)") auto

text \<open>
  The second loop. \<open>range\<close> raises \<open>ValueError\<close> for a zero step and is empty for a
  negative one (the chunk is then lost).
\<close>

fun split_large :: "int \<Rightarrow> string list \<Rightarrow> py_error + string list" where
  "split_large chunk_size [] = Inr []"
| "split_large chunk_size (chunk # chunks) =
     (if int (length chunk) \<le> chunk_size then
        (case split_large chunk_size chunks of
           Inl e \<Rightarrow> Inl e
         | Inr rest \<Rightarrow> Inr (chunk # rest))
      else if chunk_size = 0 then Inl (ValueError ''range() arg 3 must not be zero'')
      else if chunk_size < 0 then split_large chunk_size chunks
      else
        (case split_large chunk_size chunks of
           Inl e \<Rightarrow> Inl e
         | Inr rest \<Rightarrow> Inr (slices chunk (nat chunk_size) 0 @ rest)))"

definition split_text_into_chunks :: "string \<Rightarrow> int \<Rightarrow> py_error + string list" where
  "split_text_into_chunks text chunk_size =
     (if int (length text) \<le> chunk_size then Inr [text]
      else
        (let sentences = split_dot_space (replace_newlines text);
             (chunks, current_chunk) = pack_sentences chunk_size sentences [] [];
             chunks = (if current_chunk \<noteq> [] then chunks @ [current_chunk] else chunks)
         in split_large chunk_size chunks))"

section \<open>String operations of the Python runtime\<close>

text \<open>
  \<open>str.lower()\<close> on the code points 0..255: the ASCII capitals and the Latin-1 capitals
  (\<open>0xC0..0xDE\<close> without the multiplication sign \<open>0xD7\<close>) move up by 32; every other
  character stays.
\<close>

definition upper_chars :: string where
  "upper_chars = ''ABCDEFGHIJKLMNOPQRSTUVWXYZ'' @
     [CHR 0xC0, CHR 0xC1, CHR 0xC2, CHR 0xC3, CHR 0xC4, CHR 0xC5, CHR 0xC6, CHR 0xC7,
      CHR 0xC8, CHR 0xC9, CHR 0xCA, CHR 0xCB, CHR 0xCC, CHR 0xCD, CHR 0xCE, CHR 0xCF,
      CHR 0xD0, CHR 0xD1, CHR 0xD2, CHR 0xD3, CHR 0xD4, CHR 0xD5, CHR 0xD6,
      CHR 0xD8, CHR 0xD9, CHR 0xDA, CHR 0xDB, CHR 0xDC, CHR 0xDD, CHR 0xDE]"

definition lower_chars :: string where
  "lower_chars = ''abcdefghijklmnopqrstuvwxyz'' @
     [CHR 0xE0, CHR 0xE1, CHR 0xE2, CHR 0xE3, CHR 0xE4, CHR 0xE5, CHR 0xE6, CHR 0xE7,
      CHR 0xE8, CHR 0xE9, CHR 0xEA, CHR 0xEB, CHR 0xEC, CHR 0xED, CHR 0xEE, CHR 0xEF,
      CHR 0xF0, CHR 0xF1, CHR 0xF2, CHR 0xF3, CHR 0xF4, CHR 0xF5, CHR 0xF6,
      CHR 0xF8, CHR 0xF9, CHR 0xFA, CHR 0xFB, CHR 0xFC, CHR 0xFD, CHR 0xFE]"

text \<open>
  \<open>translate us ls c\<close> is the character of \<open>ls\<close> at the first position where \<open>us\<close>
  holds \<open>c\<close>, and \<open>c\<close> itself when \<open>us\<close> does not hold it.
\<close>

fun translate :: "string \<Rightarrow> string \<Rightarrow> char \<Rightarrow> char" where
  "translate (u # us) (l # ls) c = (if c = u then l else translate us ls c)"
| "translate us ls c = c"

definition lower_char :: "char \<Rightarrow> char" where
  "lower_char c = translate upper_chars lower_chars c"

definition str_lower :: "string \<Rightarrow> string" where
  "str_lower s = map lower_char s"

text \<open>
  \<open>str.isspace()\<close> on one character, which is also what \<open>\s\<close> matches in a \<open>str\<close>
  pattern: tab, line feed, vertical tab, form feed, carriage return, the separators
  \<open>0x1C..0x1F\<close>, space, next line \<open>0x85\<close> and no-break space \<open>0xA0\<close>.
\<close>

definition is_space :: "char \<Rightarrow> bool" where
  "is_space c \<longleftrightarrow> c \<in> set [CHR 0x09, CHR 0x0A, CHR 0x0B, CHR 0x0C, CHR 0x0D,
                           CHR 0x1C, CHR 0x1D, CHR 0x1E, CHR 0x1F, CHR 0x20, CHR 0x85, CHR 0xA0]"

text \<open>\<open>\d\<close>: the decimal digits; below code point 256 these are \<open>0..9\<close>.\<close>

definition is_digit :: "char \<Rightarrow> bool" where
  "is_digit c \<longleftrightarrow> c \<in> set ''0123456789''"

text \<open>\<open>s.startswith(p)\<close> and the substring test \<open>k in s\<close>.\<close>

fun starts_with :: "string \<Rightarrow> string \<Rightarrow> bool" where
  "starts_with s [] = True"
| "starts_with [] (p # ps) = False"
| "starts_with (c # cs) (p # ps) = (c = p \<and> starts_with cs ps)"

fun str_in :: "string \<Rightarrow> string \<Rightarrow> bool" where
  "str_in k [] = (k = [])"
| "str_in k (c # cs) = (starts_with (c # cs) k \<or> str_in k cs)"

text \<open>
  \<open>s.split()\<close> without a separator: the maximal runs of non-whitespace characters.
\<close>

function split_whitespace :: "string \<Rightarrow> string list" where
  "split_whitespace s =
     (case dropWhile is_space s of
        [] \<Rightarrow> []
      | c # cs \<Rightarrow> takeWhile (\<lambda>x. \<not> is_space x) (c # cs)
                 # split_whitespace (dropWhile (\<lambda>x. \<not> is_space x) cs))"
  by pat_completeness auto
termination
proof (relation "measure length")
  fix s c cs
  assume a: "dropWhile is_space s = c # cs"
  have "length (dropWhile (\<lambda>x. \<not> is_space x) cs) \<le> length cs"
    by (rule length_dropWhile_le)
  moreover have "length (c # cs) \<le> length s"
    using length_dropWhile_le [of is_space s] a by simp
  ultimately show "(dropWhile (\<lambda>x. \<not> is_space x) cs, s) \<in> measure length"
    by simp
qed simp

declare split_whitespace.simps [simp del]

text \<open>\<open>sep.join(xs)\<close>\<close>

fun str_join :: "string \<Rightarrow> string list \<Rightarrow> string" where
  "str_join sep [] = []"
| "str_join sep [x] = x"
| "str_join sep (x # y # ys) = x @ sep @ str_join sep (y # ys)"

text \<open>\<open>str(n)\<close> for an integer.\<close>

fun str_nat :: "nat \<Rightarrow> string" where
  "str_nat n =
     (if n < 10 then [''0123456789'' ! n]
      else str_nat (n div 10) @ [''0123456789'' ! (n mod 10)])"

declare str_nat.simps [simp del]

definition str_int :: "int \<Rightarrow> string" where
  "str_int i = (if i < 0 then ''-'' @ str_nat (nat (- i)) else str_nat (nat i))"

definition digit_value :: "char \<Rightarrow> nat" where
  "digit_value c = length (takeWhile (\<lambda>d. d \<noteq> c) ''0123456789'')"

text \<open>
  \<open>int(s)\<close> for a non-empty string of decimal digits. \<open>digits_value\<close> is the number
  the digits denote. The interpreter (CPython 3.11 and later, with its default
  \<open>sys.get_int_max_str_digits()\<close> of 4300) refuses a string of more than 4300 digits with
  \<open>ValueError\<close>; leading zeros count as digits.
\<close>

definition digits_value :: "string \<Rightarrow> nat" where
  "digits_value digits = foldl (\<lambda>acc c. 10 * acc + digit_value c) 0 digits"

definition max_str_digits :: nat where
  "max_str_digits = 4300"

definition py_int :: "string \<Rightarrow> py_error + nat" where
  "py_int digits =
     (if length digits > max_str_digits
      then Inl (ValueError
             (''Exceeds the limit (4300 digits) for integer string conversion: value has ''
              @ str_nat (length digits)
              @ '' digits; use sys.set_int_max_str_digits() to increase the limit''))
      else Inr (digits_value digits))"

section \<open>\<open>backend/rag_system.py\<close>: \<open>classify_question_type\<close>\<close>

definition summary_keywords :: "string list" where
  "summary_keywords =
     [''summary'', ''summarize'', ''overview'', ''main points'', ''key findings'',
      ''conclusion'', ''what is the gist'', ''briefly explain'']"

definition procedure_keywords :: "string list" where
  "procedure_keywords =
     [''step'', ''steps'', ''process'', ''procedure'', ''how to'', ''how do'',
      ''method'', ''way'', ''list'', ''sequence'', ''order'', ''workflow'']"

definition compare_keywords :: "string list" where
  "compare_keywords =
     [''compare'', ''difference'', ''different'', ''versus'', ''vs'', ''vs.'',
      ''similar'', ''similarity'', ''analyze'', ''analysis'', ''contrast'',
      ''relationship'', ''between'']"

definition fact_keywords :: "string list" where
  "fact_keywords =
     [''what is'', ''what are'', ''who is'', ''when'', ''where'', ''which'',
      ''define'', ''definition'', ''meaning'']"

definition classify_question_type :: "string \<Rightarrow> string \<times> nat" where
  "classify_question_type question =
     (let question_lower = str_lower question in
      if list_ex (\<lambda>keyword. str_in keyword question_lower) summary_keywords
        then (''Summary'', 40)
      else if list_ex (\<lambda>keyword. str_in keyword question_lower) procedure_keywords
        then (''Procedure'', 40)
      else if list_ex (\<lambda>keyword. str_in keyword question_lower) compare_keywords
        then (''Compare/Analyze'', 30)
      else if list_ex (\<lambda>keyword. str_in keyword question_lower) fact_keywords
              \<and> length (split_whitespace question) < 10
        then (''Fact'', 8)
      else (''Default'', 25))"

section \<open>\<open>backend/vector_store.py\<close>: \<open>add_documents\<close>\<close>

text \<open>
  A chunk as \<open>parse_pdf\<close> builds it; \<open>total_pages\<close> is read with
  \<open>chunk.get('total_pages', 0)\<close>, so it may be missing.
\<close>

record chunk =
  ch_text :: string
  ch_page :: int
  ch_chunk_index :: int
  ch_total_pages :: "int option"

record stored_metadata =
  sm_pdf_filename :: string
  sm_page :: int
  sm_chunk_index :: int
  sm_total_pages :: int

text \<open>The keyword arguments of \<open>self.collection.add\<close>; an embedding is a list of floats.\<close>

record add_request =
  add_documents_arg :: "string list"
  add_metadatas_arg :: "stored_metadata list"
  add_ids_arg :: "string list"
  add_embeddings_arg :: "real list list"

text \<open>
  The collection is the external vector database: \<open>collection_add\<close> is its \<open>add\<close>
  method, from a request and the collection's state to an error or the new state.
  \<open>uuid4\<close> gives the identifier drawn at the \<open>i\<close>-th call of \<open>uuid.uuid4()\<close>.
\<close>

definition add_documents ::
  "(add_request \<Rightarrow> 'c \<Rightarrow> py_error + 'c) \<Rightarrow> (nat \<Rightarrow> string) \<Rightarrow> 'c
     \<Rightarrow> chunk list \<Rightarrow> string \<Rightarrow> real list list option \<Rightarrow> py_error + 'c" where
  "add_documents collection_add uuid4 collection chunks pdf_filename embeddings =
     (let texts = map ch_text chunks;
          metadatas = map (\<lambda>chunk.
              \<lparr>sm_pdf_filename = pdf_filename,
               sm_page = ch_page chunk,
               sm_chunk_index = ch_chunk_index chunk,
               sm_total_pages = (case ch_total_pages chunk of None \<Rightarrow> 0 | Some n \<Rightarrow> n)\<rparr>) chunks;
          ids = map uuid4 [0..<length chunks]
      in case embeddings of
           None \<Rightarrow> Inl (ValueError
             ''Embeddings are required. Please provide embeddings when adding documents.'')
         | Some embs \<Rightarrow>
             collection_add
               \<lparr>add_documents_arg = texts, add_metadatas_arg = metadatas,
                add_ids_arg = ids, add_embeddings_arg = embs\<rparr> collection)"

section \<open>\<open>backend/rag_system.py\<close>: \<open>retrieve_relevant_chunks\<close>\<close>

text \<open>
  A metadata value read back from the store is an integer or a string; a retrieved
  metadata dictionary may lack either key (\<open>metadata.get(key, 'Unknown')\<close>).
\<close>

datatype py_value = PyInt int | PyStr string

record metadata =
  md_pdf_filename :: "string option"
  md_page :: "py_value option"

record retrieved_chunk =
  rc_text :: string
  rc_metadata :: metadata
  rc_distance :: "real option"

text \<open>
  An entry of the result dictionary of \<open>vector_store.query\<close>: the key is missing,
  or it holds \<open>None\<close>, or it holds a value. Reading a missing key with
  \<open>results[key]\<close> raises \<open>KeyError\<close>.
\<close>

datatype 'a py_entry = Missing | PyNone | Present 'a

text \<open>
  The result of \<open>vector_store.query\<close>: one inner list per query embedding. A distance
  is a float; it is modelled by the real number it denotes, and the comparison with
  \<open>0.8\<close> as the comparison of reals.
\<close>

record query_results =
  qr_documents :: "string list list py_entry"
  qr_metadatas :: "metadata list list py_entry"
  qr_distances :: "real list list py_entry"

text \<open>
  \<open>results['distances'][0][i] if 'distances' in results and results['distances'] else None\<close>
\<close>

definition distance_at :: "query_results \<Rightarrow> nat \<Rightarrow> py_error + real option" where
  "distance_at results i =
     (case qr_distances results of
        Missing \<Rightarrow> Inr None
      | PyNone \<Rightarrow> Inr None
      | Present [] \<Rightarrow> Inr None
      | Present (d0 # _) \<Rightarrow> if i < length d0 then Inr (Some (d0 ! i)) else Inl IndexError)"

text \<open>\<open>results['metadatas'][0][i]\<close>\<close>

definition metadata_at :: "query_results \<Rightarrow> nat \<Rightarrow> py_error + metadata" where
  "metadata_at results i =
     (case qr_metadatas results of
        Missing \<Rightarrow> Inl (KeyError ''metadatas'')
      | PyNone \<Rightarrow> Inl TypeError
      | Present [] \<Rightarrow> Inl IndexError
      | Present (m0 # _) \<Rightarrow> if i < length m0 then Inr (m0 ! i) else Inl IndexError)"

text \<open>
  The loop over \<open>range(len(results['documents'][0]))\<close>; \<open>docs0\<close> is
  \<open>results['documents'][0]\<close>, and every index of the loop is within it.
\<close>

fun retrieve_loop ::
  "query_results \<Rightarrow> string list \<Rightarrow> nat list \<Rightarrow> retrieved_chunk list
     \<Rightarrow> py_error + retrieved_chunk list" where
  "retrieve_loop results docs0 [] retrieved_chunks = Inr retrieved_chunks"
| "retrieve_loop results docs0 (i # is) retrieved_chunks =
     (case distance_at results i of
        Inl e \<Rightarrow> Inl e
      | Inr distance \<Rightarrow>
          if (case distance of None \<Rightarrow> True | Some d \<Rightarrow> d < 0.8) then
            (case metadata_at results i of
               Inl e \<Rightarrow> Inl e
             | Inr m \<Rightarrow>
                 retrieve_loop results docs0 is
                   (retrieved_chunks @
                      [\<lparr>rc_text = docs0 ! i, rc_metadata = m, rc_distance = distance\<rparr>]))
          else retrieve_loop results docs0 is retrieved_chunks)"

text \<open>
  \<open>retrieve_relevant_chunks\<close> after the embedding call and the query, from the query's
  result.
\<close>

definition retrieve_relevant_chunks :: "query_results \<Rightarrow> py_error + retrieved_chunk list" where
  "retrieve_relevant_chunks results =
     (case qr_documents results of
        Missing \<Rightarrow> Inl (KeyError ''documents'')
      | PyNone \<Rightarrow> Inr []
      | Present [] \<Rightarrow> Inr []
      | Present (docs0 # _) \<Rightarrow>
          if length docs0 > 0 then retrieve_loop results docs0 [0..<length docs0] []
          else Inr [])"

section \<open>\<open>backend/rag_system.py\<close>: \<open>generate_answer\<close>\<close>

subsection \<open>The fixed texts of the prompt\<close>

definition base_instructions :: string where
  "base_instructions =
     ''You are a helpful assistant that answers questions based on the provided context from PDF documents. \<newline>'' @
     ''CRITICAL: Use ONLY the information from the context to answer the question. \<newline>'' @
     ''\<newline>'' @
     ''If the context does NOT contain relevant information to answer the question, you MUST clearly state:\<newline>'' @
     ''\"I cannot answer this question based on the provided PDF documents. The documents do not contain information about [topic].\"\<newline>'' @
     ''\<newline>'' @
     ''DO NOT make up information or use knowledge outside the provided context. If the question is about something not in the documents, explicitly say so. \<newline>'' @
     ''\<newline>'' @
     ''IMPORTANT FORMATTING REQUIREMENTS:\<newline>'' @
     ''1. Format your answer using Markdown for better readability:\<newline>'' @
     ''   - Use **bold** for key terms and important concepts\<newline>'' @
     ''   - Use bullet points (-) or numbered lists for multiple items\<newline>'' @
     ''   - Use line breaks to separate paragraphs\<newline>'' @
     ''   - Use headings (##) for main sections if the answer is long\<newline>'' @
     ''2. Cite ALL relevant sources: Use [Source 1], [Source 2], etc. for each piece of information you reference.\<newline>''"

definition summary_instructions :: string where
  "summary_instructions =
     ''SPECIFIC INSTRUCTIONS FOR SUMMARY QUESTIONS:\<newline>'' @
     ''- Extract core conclusions and key findings\<newline>'' @
     ''- Ignore minor details, focus on main points\<newline>'' @
     ''- Keep the answer concise and well-structured\<newline>'' @
     ''- Organize information logically (most important points first)\<newline>'' @
     ''- Use bullet points or short paragraphs\<newline>'' @
     ''- Cite sources for each main point''"

definition fact_instructions :: string where
  "fact_instructions =
     ''SPECIFIC INSTRUCTIONS FOR FACTUAL QUESTIONS:\<newline>'' @
     ''- Answer the specific question directly and precisely\<newline>'' @
     ''- Cite the source for the fact\<newline>'' @
     ''- Do not expand on unrelated information\<newline>'' @
     ''- Keep the answer focused and concise\<newline>'' @
     ''- If multiple sources mention the same fact, cite all relevant sources''"

definition procedure_instructions :: string where
  "procedure_instructions =
     ''SPECIFIC INSTRUCTIONS FOR PROCEDURE/STEP QUESTIONS:\<newline>'' @
     ''- List ALL steps in the correct sequence\<newline>'' @
     ''- Use numbered lists (1., 2., 3., etc.) for sequential steps\<newline>'' @
     ''- Include complete information from all relevant sources\<newline>'' @
     ''- Read through ALL provided sources carefully to find every step\<newline>'' @
     ''- If steps are mentioned across multiple sources, combine them in order\<newline>'' @
     ''- Be thorough - do not skip any steps mentioned in the context\<newline>'' @
     ''- Cite the source for each step or group of steps''"

definition compare_instructions :: string where
  "compare_instructions =
     ''SPECIFIC INSTRUCTIONS FOR COMPARISON/ANALYSIS QUESTIONS:\<newline>'' @
     ''- Compare different aspects clearly\<newline>'' @
     ''- Provide structured analysis with clear sections\<newline>'' @
     ''- Use headings or bullet points to organize comparisons\<newline>'' @
     ''- Cite sources for each comparison point\<newline>'' @
     ''- Maintain clarity and structure throughout\<newline>'' @
     ''- Highlight key differences and similarities''"

definition default_instructions :: string where
  "default_instructions =
     ''SPECIFIC INSTRUCTIONS:\<newline>'' @
     ''- Answer the question based on the context provided\<newline>'' @
     ''- Structure your answer clearly with proper formatting\<newline>'' @
     ''- Start with a brief direct answer, then provide details\<newline>'' @
     ''- Use lists when listing multiple points\<newline>'' @
     ''- Ensure accuracy by using only information from the context''"

definition type_instructions :: "(string \<times> string) list" where
  "type_instructions =
     [(''Summary'', summary_instructions),
      (''Fact'', fact_instructions),
      (''Procedure'', procedure_instructions),
      (''Compare/Analyze'', compare_instructions),
      (''Default'', default_instructions)]"

text \<open>
  \<open>type_instructions.get(question_type, type_instructions['Default'])\<close>
\<close>

definition specific_instruction_for :: "string \<Rightarrow> string" where
  "specific_instruction_for question_type =
     (case map_of type_instructions question_type of
        Some instruction \<Rightarrow> instruction
      | None \<Rightarrow> default_instructions)"

text \<open>The f-string that builds \<open>prompt\<close>.\<close>

definition build_prompt :: "string \<Rightarrow> string \<Rightarrow> string \<Rightarrow> nat \<Rightarrow> string" where
  "build_prompt question question_type context num_sources =
     base_instructions @ ''\<newline>\<newline>'' @
     specific_instruction_for question_type @
     ''\<newline>\<newline>Context from PDF documents:\<newline>'' @
     context @
     ''\<newline>\<newline>Question: '' @
     question @
     ''\<newline>\<newline>Answer the question based on the context above. Make sure to cite ALL relevant sources (Source 1 through Source '' @
     str_nat num_sources @
     '') that contain information relevant to the answer:''"

definition system_message :: string where
  "system_message =
     ''You are a helpful assistant that answers questions based on provided context. Always format your answers using Markdown with proper spacing, bold text for key terms, lists, and clear paragraph breaks. Always cite your sources.''"

subsection \<open>Sources and citations\<close>

record source_info =
  si_source_num :: nat
  si_chunks :: "string list"
  si_pdf_filename :: string
  si_page :: py_value

record citation =
  c_source :: nat
  c_pdf_filename :: string
  c_page :: py_value
  c_text_snippet :: string

text \<open>
  The key \<open>(pdf_filename, page)\<close> of a retrieved chunk, with the defaults of
  \<open>metadata.get\<close>.
\<close>

definition source_key_of :: "retrieved_chunk \<Rightarrow> string \<times> py_value" where
  "source_key_of chunk =
     (let metadata = rc_metadata chunk;
          page = (case md_page metadata of None \<Rightarrow> PyStr ''Unknown'' | Some p \<Rightarrow> p);
          pdf_filename = (case md_pdf_filename metadata of None \<Rightarrow> ''Unknown'' | Some f \<Rightarrow> f)
      in (pdf_filename, page))"

text \<open>
  The first loop of \<open>generate_answer\<close>. The dictionary \<open>unique_sources\<close> keeps its keys
  in insertion order, so it is an association list with one entry per key; the state of
  the loop is \<open>(unique_sources, source_counter)\<close>.
\<close>

fun collect_sources ::
  "retrieved_chunk list \<Rightarrow> ((string \<times> py_value) \<times> source_info) list \<Rightarrow> nat
     \<Rightarrow> ((string \<times> py_value) \<times> source_info) list" where
  "collect_sources [] unique_sources source_counter = unique_sources"
| "collect_sources (chunk # rest) unique_sources source_counter =
     (let source_key = source_key_of chunk in
      if source_key \<in> set (map fst unique_sources) then
        collect_sources rest
          (map (\<lambda>(k, info).
                  if k = source_key
                  then (k, info\<lparr>si_chunks := si_chunks info @ [rc_text chunk]\<rparr>)
                  else (k, info)) unique_sources)
          source_counter
      else
        collect_sources rest
          (unique_sources @
             [(source_key,
               \<lparr>si_source_num = source_counter,
                si_chunks = [rc_text chunk],
                si_pdf_filename = fst source_key,
                si_page = snd source_key\<rparr>)])
          (source_counter + 1))"

text \<open>\<open>str(page)\<close> inside the f-string of a context line.\<close>

definition str_value :: "py_value \<Rightarrow> string" where
  "str_value v = (case v of PyInt i \<Rightarrow> str_int i | PyStr s \<Rightarrow> s)"

definition context_line :: "source_info \<Rightarrow> string" where
  "context_line source_info =
     (let source_num = si_source_num source_info;
          combined_text = str_join '' '' (si_chunks source_info)
      in ''[Source '' @ str_nat source_num @ '' - Page '' @ str_value (si_page source_info)
           @ '']: '' @ combined_text)"

text \<open>
  The second loop: one context line and one citation per entry of \<open>unique_sources\<close>.
  \<open>source_info['chunks'][0]\<close> raises \<open>IndexError\<close> on an empty list.
\<close>

fun build_context ::
  "((string \<times> py_value) \<times> source_info) list \<Rightarrow> string list \<Rightarrow> citation list
     \<Rightarrow> py_error + (string list \<times> citation list)" where
  "build_context [] context_parts citations = Inr (context_parts, citations)"
| "build_context ((source_key, source_info) # rest) context_parts citations =
     (case si_chunks source_info of
        [] \<Rightarrow> Inl IndexError
      | first # _ \<Rightarrow>
          (let text_snippet = (if length first > 200 then take 200 first @ ''...'' else first)
           in build_context rest
                (context_parts @ [context_line source_info])
                (citations @
                   [\<lparr>c_source = si_source_num source_info,
                     c_pdf_filename = si_pdf_filename source_info,
                     c_page = si_page source_info,
                     c_text_snippet = text_snippet\<rparr>])))"

subsection \<open>The pattern \<open>\[Source\s+(\d+)\]\<close> with \<open>re.IGNORECASE\<close>\<close>

text \<open>
  A match at the start of \<open>s\<close>: \<open>(group(0), group(1), rest)\<close>. Whitespace, digits and
  the closing bracket are disjoint, so the greedy runs \<open>\s+\<close> and \<open>\d+\<close> are the only way
  to match and no backtracking is needed.
\<close>

definition match_source :: "string \<Rightarrow> (string \<times> string \<times> string) option" where
  "match_source s =
     (case s of
        [] \<Rightarrow> None
      | c # s1 \<Rightarrow>
          if c = CHR ''['' \<and> str_lower (take 6 s1) = ''source'' then
            (let spaces = takeWhile is_space (drop 6 s1);
                 s3 = dropWhile is_space (drop 6 s1);
                 digits = takeWhile is_digit s3;
                 s4 = dropWhile is_digit s3
             in if spaces \<noteq> [] \<and> digits \<noteq> [] then
                  (case s4 of
                     [] \<Rightarrow> None
                   | d # rest \<Rightarrow>
                       if d = CHR '']''
                       then Some (c # take 6 s1 @ spaces @ digits @ [d], digits, rest)
                       else None)
                else None)
          else None)"

text \<open>
  The scan shared by \<open>re.findall\<close> and \<open>re.sub\<close>: the leftmost non-overlapping matches,
  and the characters between them.
\<close>

datatype re_piece = Unmatched char | Match string string

function re_scan :: "string \<Rightarrow> re_piece list" where
  "re_scan [] = []"
| "re_scan (c # cs) =
     (case match_source (c # cs) of
        None \<Rightarrow> Unmatched c # re_scan cs
      | Some (g0, g1, rest) \<Rightarrow> Match g0 g1 # re_scan rest)"
  by pat_completeness auto
termination
proof (relation "measure length")
  fix c cs x2 g0 y g1 rest
  assume m: "match_source (c # cs) = Some x2" "(g0, y) = x2" "(g1, rest) = y"
  let ?s3 = "dropWhile is_space (drop 6 cs)"
  from m have "dropWhile is_digit ?s3 = CHR '']'' # rest"
    by (auto simp: match_source_def Let_def split: if_splits list.splits)
  then have "length rest < length (dropWhile is_digit ?s3)"
    by simp
  also have "\<dots> \<le> length ?s3"
    by (rule length_dropWhile_le)
  also have "\<dots> \<le> length (drop 6 cs)"
    by (rule length_dropWhile_le)
  also have "\<dots> \<le> length cs"
    by simp
  finally show "(rest, c # cs) \<in> measure length"
    by simp
qed simp_all

text \<open>
  \<open>re.findall\<close> returns the texts of group 1. \<open>re.sub\<close> calls the replacement function
  on every match, from left to right, and raises what that function raises.
\<close>

definition re_findall :: "string \<Rightarrow> string list" where
  "re_findall s =
     concat (map (\<lambda>p. case p of Unmatched c \<Rightarrow> [] | Match g0 g1 \<Rightarrow> [g1]) (re_scan s))"

fun sub_pieces :: "(string \<Rightarrow> string \<Rightarrow> py_error + string) \<Rightarrow> re_piece list \<Rightarrow> py_error + string" where
  "sub_pieces repl [] = Inr []"
| "sub_pieces repl (Unmatched c # pieces) =
     (case sub_pieces repl pieces of
        Inl e \<Rightarrow> Inl e
      | Inr t \<Rightarrow> Inr (c # t))"
| "sub_pieces repl (Match g0 g1 # pieces) =
     (case repl g0 g1 of
        Inl e \<Rightarrow> Inl e
      | Inr r \<Rightarrow>
          (case sub_pieces repl pieces of
             Inl e \<Rightarrow> Inl e
           | Inr t \<Rightarrow> Inr (r @ t)))"

definition re_sub :: "(string \<Rightarrow> string \<Rightarrow> py_error + string) \<Rightarrow> string \<Rightarrow> py_error + string" where
  "re_sub repl s = sub_pieces repl (re_scan s)"

subsection \<open>Citations cited in the answer\<close>

text \<open>
  The loop over \<open>matches\<close>: \<open>int(match)\<close> is taken on every match, in order, and the
  first one that raises ends the loop; the state is the set \<open>cited_source_numbers\<close>.
\<close>

fun collect_cited :: "string list \<Rightarrow> citation list \<Rightarrow> nat set \<Rightarrow> py_error + nat set" where
  "collect_cited [] citations cited = Inr cited"
| "collect_cited (match # matches) citations cited =
     (case py_int match of
        Inl e \<Rightarrow> Inl e
      | Inr source_num \<Rightarrow>
          collect_cited matches citations
            (if list_ex (\<lambda>c. c_source c = source_num) citations
             then insert source_num cited else cited))"

definition cited_source_numbers :: "string \<Rightarrow> citation list \<Rightarrow> py_error + nat set" where
  "cited_source_numbers answer citations = collect_cited (re_findall answer) citations {}"

text \<open>
  The loop over \<open>enumerate(filtered_citations, start=1)\<close>: the state is the dictionary
  \<open>source_remap\<close>; the citations are renumbered in place.
\<close>

fun renumber ::
  "citation list \<Rightarrow> nat \<Rightarrow> (nat \<rightharpoonup> nat) \<Rightarrow> citation list \<times> (nat \<rightharpoonup> nat)" where
  "renumber [] idx source_remap = ([], source_remap)"
| "renumber (citation # rest) idx source_remap =
     (let old_source_num = c_source citation;
          (rest', source_remap') =
             renumber rest (idx + 1) (source_remap(old_source_num \<mapsto> idx))
      in (citation\<lparr>c_source := idx\<rparr> # rest', source_remap'))"

text \<open>The inner function \<open>replace_source\<close>; \<open>g0\<close> is \<open>match.group(0)\<close>.\<close>

definition replace_source :: "(nat \<rightharpoonup> nat) \<Rightarrow> string \<Rightarrow> string \<Rightarrow> py_error + string" where
  "replace_source source_remap g0 g1 =
     (case py_int g1 of
        Inl e \<Rightarrow> Inl e
      | Inr old_num \<Rightarrow>
          (case source_remap old_num of
             Some new_num \<Rightarrow> Inr (''[Source '' @ str_nat new_num @ '']'')
           | None \<Rightarrow> Inr g0))"

record answer_result =
  ar_answer :: string
  ar_citations :: "citation list"

text \<open>
  The last part of \<open>generate_answer\<close>, from the answer of the LLM and the citations
  built from the chunks. Nothing here catches an exception.
\<close>

definition reconcile_citations :: "string \<Rightarrow> citation list \<Rightarrow> py_error + answer_result" where
  "reconcile_citations answer citations =
     (case cited_source_numbers answer citations of
        Inl e \<Rightarrow> Inl e
      | Inr cited \<Rightarrow>
          if cited \<noteq> {} then
            (let filtered_citations = filter (\<lambda>citation. c_source citation \<in> cited) citations;
                 filtered_citations = sort_key c_source filtered_citations;
                 (filtered_citations, source_remap) = renumber filtered_citations 1 Map.empty
             in case re_sub (replace_source source_remap) answer of
                  Inl e \<Rightarrow> Inl e
                | Inr answer' \<Rightarrow>
                    Inr \<lparr>ar_answer = answer', ar_citations = filtered_citations\<rparr>)
          else Inr \<lparr>ar_answer = answer, ar_citations = citations\<rparr>)"

subsection \<open>\<open>generate_answer\<close>\<close>

text \<open>
  The completion service is external: \<open>client\<close> maps a request to the text of the first
  choice, or to the message of the exception it raises. \<open>generate_answer\<close> returns the
  requests it has sent together with its result.
\<close>

record llm_request =
  rq_model :: string
  rq_system :: string
  rq_user :: string
  rq_temperature :: real
  rq_max_tokens :: nat

definition no_information_answer :: string where
  "no_information_answer =
     ''I couldn't find relevant information in the uploaded PDFs to answer your question.''"

definition generate_answer ::
  "(llm_request \<Rightarrow> string + string) \<Rightarrow> string \<Rightarrow> string \<Rightarrow> retrieved_chunk list \<Rightarrow> string
     \<Rightarrow> llm_request list \<times> (py_error + answer_result)" where
  "generate_answer client llm_model question context_chunks question_type =
     (if context_chunks = [] then
        ([], Inr \<lparr>ar_answer = no_information_answer, ar_citations = []\<rparr>)
      else
        (let unique_sources = collect_sources context_chunks [] 1 in
         case build_context unique_sources [] [] of
           Inl e \<Rightarrow> ([], Inl e)
         | Inr (context_parts, citations) \<Rightarrow>
             (let context = str_join ''\<newline>\<newline>'' context_parts;
                  num_sources = length unique_sources;
                  prompt = build_prompt question question_type context num_sources;
                  request = \<lparr>rq_model = llm_model, rq_system = system_message,
                             rq_user = prompt, rq_temperature = 0.7, rq_max_tokens = 1000\<rparr>
              in case client request of
                   Inl error_msg \<Rightarrow>
                     ([request],
                      Inl (PyException
                        (if str_in ''401'' error_msg \<or> str_in ''User not found'' error_msg
                         then ''Authentication failed. Please check your API key. Error: ''
                                @ error_msg
                         else ''Error calling LLM API: '' @ error_msg)))
                 | Inr answer \<Rightarrow>
                     ([request], reconcile_citations answer citations))))"

section \<open>Reference description of the grouping\<close>

text \<open>
  What the first loop of \<open>generate_answer\<close> is shown to compute: one entry per key
  \<open>(pdf_filename, page)\<close>, in the order in which the keys are first seen, numbered from
  1, with the texts of all chunks of that key in their order.
\<close>

definition grouped ::
  "retrieved_chunk list \<Rightarrow> ((string \<times> py_value) \<times> source_info) list" where
  "grouped chunks =
     map (\<lambda>(i, k). (k, \<lparr>si_source_num = i + 1,
                         si_chunks = map rc_text (filter (\<lambda>c. source_key_of c = k) chunks),
                         si_pdf_filename = fst k, si_page = snd k\<rparr>))
       (enumerate 0 (rev (remdups (rev (map source_key_of chunks)))))"

section \<open>Properties of the chunker\<close>

lemma split_dot_space_not_Nil: "split_dot_space s \<noteq> []"
  by (induction s rule: split_dot_space.induct) (auto split: list.splits)

lemma split_dot_space_join:
  "concat (map (\<lambda>x. x @ ''. '') (split_dot_space s)) = s @ ''. ''"
proof (induction s rule: split_dot_space.induct)
  case (3 c d cs)
  then show ?case
    using split_dot_space_not_Nil [of "d # cs"]
    by (cases "split_dot_space (d # cs)") auto
qed auto

lemma pack_sentences_concat:
  "pack_sentences n ss chunks cur = (chunks', cur') \<Longrightarrow>
   concat chunks' @ cur' = concat chunks @ cur @ concat (map (\<lambda>x. x @ ''. '') ss)"
  by (induction ss arbitrary: chunks cur) (auto split: if_splits)

lemma slices_concat: "0 < step \<Longrightarrow> concat (slices chunk step i) = drop i chunk"
proof (induction chunk step i rule: slices.induct)
  case (1 chunk step i)
  show ?case
  proof (cases "i < length chunk")
    case True
    have "concat (slices chunk step i) = take step (drop i chunk) @ drop (i + step) chunk"
      using 1 True by simp
    also have "\<dots> = drop i chunk"
      by (metis add.commute append_take_drop_id drop_drop)
    finally show ?thesis .
  next
    case False
    with 1 show ?thesis by simp
  qed
qed

lemma split_large_concat:
  "0 < n \<Longrightarrow> \<exists>fs. split_large n chunks = Inr fs \<and> concat fs = concat chunks"
proof (induction chunks)
  case Nil
  then show ?case by simp
next
  case (Cons chunk chunks)
  then obtain rest where r: "split_large n chunks = Inr rest" "concat rest = concat chunks"
    by auto
  with Cons.prems show ?case
    by (simp del: slices.simps add: slices_concat)
qed

lemma split_text_into_chunks_long:
  assumes "0 < n" and "\<not> int (length text) \<le> n"
  shows "\<exists>fs. split_text_into_chunks text n = Inr fs
              \<and> concat fs = replace_newlines text @ ''. ''"
proof -
  obtain chunks cur where p:
    "pack_sentences n (split_dot_space (replace_newlines text)) [] [] = (chunks, cur)"
    by (cases "pack_sentences n (split_dot_space (replace_newlines text)) [] []")
  have c: "concat chunks @ cur = replace_newlines text @ ''. ''"
    using pack_sentences_concat [OF p] by (simp add: split_dot_space_join)
  let ?cs = "if cur \<noteq> [] then chunks @ [cur] else chunks"
  have c': "concat ?cs = replace_newlines text @ ''. ''"
    using c by auto
  obtain fs where "split_large n ?cs = Inr fs" "concat fs = concat ?cs"
    using split_large_concat [OF assms(1)] by blast
  then show ?thesis
    using assms(2) p c' by (simp add: split_text_into_chunks_def)
qed

text \<open>
  Claim C6, first half: a text no longer than the target size is returned as the single
  chunk \<open>[text]\<close>. Second half, as the code has it: the empty text is such a text for
  every target size \<open>\<ge> 0\<close>, so the chunker returns the one-element sequence holding the
  empty string.
\<close>

theorem split_text_into_chunks_short:
  "(int (length text) \<le> chunk_size \<longrightarrow> split_text_into_chunks text chunk_size = Inr [text])
   \<and> (0 \<le> chunk_size \<longrightarrow> split_text_into_chunks [] chunk_size = Inr [[]])"
  by (simp add: split_text_into_chunks_def)

theorem split_text_into_chunks_short_witness:
  "int (length ''One page.'') \<le> 500
   \<and> split_text_into_chunks ''One page.'' 500 = Inr [''One page.'']
   \<and> (0::int) \<le> 500 \<and> split_text_into_chunks [] 500 = Inr [[]]"
  using split_text_into_chunks_short [of "''One page.''" 500]
        split_text_into_chunks_short [of "[]" 500]
  by simp

text \<open>
  Claim C6 as stated asks for the empty sequence on zero-length input; at the default
  target size the chunker returns one empty chunk instead.
\<close>

theorem split_text_into_chunks_empty_counterexample:
  "split_text_into_chunks [] 500 = Inr [[]] \<and> split_text_into_chunks [] 500 \<noteq> Inr []"
  by (simp add: split_text_into_chunks_def)

text \<open>
  Claim C9, as the code has it: for a target size \<open>\<ge> 1\<close> the chunker returns chunks, and
  their concatenation is the text itself when the text fits the target size, and otherwise
  the text with every newline replaced by a space, followed by one more \<open>''. ''\<close>.
  The two texts have the same length, so every position of the input is present.
\<close>

theorem split_text_into_chunks_coverage:
  assumes "1 \<le> chunk_size"
  shows "\<exists>chunks. split_text_into_chunks text chunk_size = Inr chunks
          \<and> concat chunks =
              (if int (length text) \<le> chunk_size then text
               else replace_newlines text @ ''. '')
          \<and> length (replace_newlines text) = length text"
proof (cases "int (length text) \<le> chunk_size")
  case True
  then show ?thesis
    by (simp add: split_text_into_chunks_def replace_newlines_def)
next
  case False
  then show ?thesis
    using split_text_into_chunks_long [of chunk_size "text"] assms
    by (auto simp: replace_newlines_def)
qed

theorem split_text_into_chunks_coverage_witness:
  "(1::int) \<le> 4
   \<and> (\<exists>chunks. split_text_into_chunks ''ab. cd. e'' 4 = Inr chunks
          \<and> concat chunks =
              (if int (length ''ab. cd. e'') \<le> 4 then ''ab. cd. e''
               else replace_newlines ''ab. cd. e'' @ ''. '')
          \<and> length (replace_newlines ''ab. cd. e'') = length ''ab. cd. e'')"
  using split_text_into_chunks_coverage [of 4 "''ab. cd. e''"]
  by simp

text \<open>
  Claim C9 as stated: the original text is reconstructed from the chunks by ignoring
  inserted characters, that is, the text is a subsequence of the concatenation. A newline
  of the input occurs in no chunk.
\<close>

theorem split_text_into_chunks_coverage_counterexample:
  "split_text_into_chunks ''a\<newline>b'' 1 = Inr [''a'', '' '', ''b'', ''.'', '' '']
   \<and> \<not> subseq ''a\<newline>b'' (concat [''a'', '' '', ''b'', ''.'', '' ''])"
  by (simp add: split_text_into_chunks_def replace_newlines_def)

section \<open>Properties of \<open>classify_question_type\<close>\<close>

lemma starts_with_prefix: "starts_with s p \<longleftrightarrow> prefix p s"
  by (induction s p rule: starts_with.induct) auto

lemma str_in_sublist: "str_in k s \<longleftrightarrow> sublist k s"
  by (induction s) (auto simp: sublist_Cons_right starts_with_prefix)

lemma translate_cases:
  "translate us ls c = c \<or> (c \<in> set us \<and> translate us ls c \<in> set ls)"
  by (induction us ls c rule: translate.induct) auto

lemma lower_char_cases:
  "lower_char c = c \<or> (c \<in> set upper_chars \<and> lower_char c \<in> set lower_chars)"
  unfolding lower_char_def by (rule translate_cases)

lemma upper_chars_not_space: "c \<in> set upper_chars \<Longrightarrow> \<not> is_space c"
  by (auto simp: upper_chars_def is_space_def)

lemma lower_chars_not_space: "c \<in> set lower_chars \<Longrightarrow> \<not> is_space c"
  by (auto simp: lower_chars_def is_space_def)

lemma is_space_lower_char: "is_space (lower_char c) = is_space c"
  using lower_char_cases [of c] upper_chars_not_space [of c]
        lower_chars_not_space [of "lower_char c"]
  by auto

lemma split_whitespace_lower:
  "split_whitespace (map lower_char s) = map (map lower_char) (split_whitespace s)"
proof (induction s rule: split_whitespace.induct)
  case (1 s)
  have d: "dropWhile is_space (map lower_char s) = map lower_char (dropWhile is_space s)"
    by (simp add: dropWhile_map comp_def is_space_lower_char)
  show ?case
  proof (cases "dropWhile is_space s")
    case Nil
    then have "dropWhile is_space (map lower_char s) = []"
      using d by simp
    then show ?thesis
      using Nil
      by (simp only: split_whitespace.simps [of s] split_whitespace.simps [of "map lower_char s"]
            list.case list.map)
  next
    case (Cons c cs)
    have ih: "split_whitespace (map lower_char (dropWhile (\<lambda>x. \<not> is_space x) cs))
          = map (map lower_char) (split_whitespace (dropWhile (\<lambda>x. \<not> is_space x) cs))"
      using 1 Cons by simp
    have t: "takeWhile (\<lambda>x. \<not> is_space x) (map lower_char (c # cs))
          = map lower_char (takeWhile (\<lambda>x. \<not> is_space x) (c # cs))"
      by (simp only: takeWhile_map comp_def is_space_lower_char)
    have r: "dropWhile (\<lambda>x. \<not> is_space x) (map lower_char cs)
          = map lower_char (dropWhile (\<lambda>x. \<not> is_space x) cs)"
      by (simp only: dropWhile_map comp_def is_space_lower_char)
    have e: "dropWhile is_space (map lower_char s) = lower_char c # map lower_char cs"
      using d Cons by simp
    have "split_whitespace (map lower_char s)
          = takeWhile (\<lambda>x. \<not> is_space x) (lower_char c # map lower_char cs)
            # split_whitespace (dropWhile (\<lambda>x. \<not> is_space x) (map lower_char cs))"
      by (simp only: split_whitespace.simps [of "map lower_char s"] e list.case)
    also have "\<dots> = map lower_char (takeWhile (\<lambda>x. \<not> is_space x) (c # cs))
            # map (map lower_char) (split_whitespace (dropWhile (\<lambda>x. \<not> is_space x) cs))"
      using t r ih by simp
    also have "\<dots> = map (map lower_char) (split_whitespace s)"
      by (simp only: split_whitespace.simps [of s] Cons list.case list.map)
    finally show ?thesis .
  qed
qed

lemma word_count_lower:
  "length (split_whitespace (str_lower s)) = length (split_whitespace s)"
  by (simp add: str_lower_def split_whitespace_lower)

text \<open>
  Claim C4: the classification is a function of the question alone, so two calls on the
  same question agree. The keyword lists are tried in the order Summary, Procedure,
  Compare/Analyze, Fact and the first list with a keyword inside the lower-cased question
  decides; Fact also needs fewer than ten words; otherwise the result is Default. The
  counts are 40, 40, 30, 8 and 25. Questions that differ only in the case of their
  letters are classified alike.
\<close>

theorem classify_question_type_priority:
  "((\<exists>k \<in> set summary_keywords. sublist k (str_lower question))
      \<longrightarrow> classify_question_type question = (''Summary'', 40))
   \<and> (\<not> (\<exists>k \<in> set summary_keywords. sublist k (str_lower question))
       \<and> (\<exists>k \<in> set procedure_keywords. sublist k (str_lower question))
      \<longrightarrow> classify_question_type question = (''Procedure'', 40))
   \<and> (\<not> (\<exists>k \<in> set summary_keywords. sublist k (str_lower question))
       \<and> \<not> (\<exists>k \<in> set procedure_keywords. sublist k (str_lower question))
       \<and> (\<exists>k \<in> set compare_keywords. sublist k (str_lower question))
      \<longrightarrow> classify_question_type question = (''Compare/Analyze'', 30))
   \<and> (\<not> (\<exists>k \<in> set summary_keywords. sublist k (str_lower question))
       \<and> \<not> (\<exists>k \<in> set procedure_keywords. sublist k (str_lower question))
       \<and> \<not> (\<exists>k \<in> set compare_keywords. sublist k (str_lower question))
       \<and> (\<exists>k \<in> set fact_keywords. sublist k (str_lower question))
       \<and> length (split_whitespace question) < 10
      \<longrightarrow> classify_question_type question = (''Fact'', 8))
   \<and> (\<not> (\<exists>k \<in> set summary_keywords. sublist k (str_lower question))
       \<and> \<not> (\<exists>k \<in> set procedure_keywords. sublist k (str_lower question))
       \<and> \<not> (\<exists>k \<in> set compare_keywords. sublist k (str_lower question))
       \<and> \<not> ((\<exists>k \<in> set fact_keywords. sublist k (str_lower question))
              \<and> length (split_whitespace question) < 10)
      \<longrightarrow> classify_question_type question = (''Default'', 25))
   \<and> (str_lower question' = str_lower question
      \<longrightarrow> classify_question_type question' = classify_question_type question)"
proof -
  have w: "length (split_whitespace question') = length (split_whitespace question)"
    if "str_lower question' = str_lower question"
    using that word_count_lower [of question] word_count_lower [of question'] by simp
  show ?thesis
    using w by (simp add: classify_question_type_def list_ex_iff str_in_sublist Let_def)
qed

theorem classify_question_type_priority_witness:
  "(\<exists>k \<in> set summary_keywords. sublist k (str_lower ''Summarize the steps''))
   \<and> (\<exists>k \<in> set procedure_keywords. sublist k (str_lower ''Summarize the steps''))
   \<and> classify_question_type ''Summarize the steps'' = (''Summary'', 40)
   \<and> classify_question_type ''How do I reset it?'' = (''Procedure'', 40)
   \<and> classify_question_type ''Compare A and B'' = (''Compare/Analyze'', 30)
   \<and> length (split_whitespace ''What is X?'') < 10
   \<and> classify_question_type ''What is X?'' = (''Fact'', 8)
   \<and> classify_question_type ''Tell me more'' = (''Default'', 25)
   \<and> str_lower ''WHAT IS X?'' = str_lower ''What is X?''
   \<and> classify_question_type ''WHAT IS X?'' = (''Fact'', 8)"
proof -
  have h1: "\<exists>k \<in> set summary_keywords. sublist k (str_lower ''Summarize the steps'')"
    by code_simp
  have h1': "\<exists>k \<in> set procedure_keywords. sublist k (str_lower ''Summarize the steps'')"
    by code_simp
  have h2: "\<not> (\<exists>k \<in> set summary_keywords. sublist k (str_lower ''How do I reset it?''))
      \<and> (\<exists>k \<in> set procedure_keywords. sublist k (str_lower ''How do I reset it?''))"
    by code_simp
  have h3: "\<not> (\<exists>k \<in> set summary_keywords. sublist k (str_lower ''Compare A and B''))
      \<and> \<not> (\<exists>k \<in> set procedure_keywords. sublist k (str_lower ''Compare A and B''))
      \<and> (\<exists>k \<in> set compare_keywords. sublist k (str_lower ''Compare A and B''))"
    by code_simp
  have h4: "\<not> (\<exists>k \<in> set summary_keywords. sublist k (str_lower ''What is X?''))
      \<and> \<not> (\<exists>k \<in> set procedure_keywords. sublist k (str_lower ''What is X?''))
      \<and> \<not> (\<exists>k \<in> set compare_keywords. sublist k (str_lower ''What is X?''))
      \<and> (\<exists>k \<in> set fact_keywords. sublist k (str_lower ''What is X?''))
      \<and> length (split_whitespace ''What is X?'') < 10"
    by code_simp
  have h5: "\<not> (\<exists>k \<in> set summary_keywords. sublist k (str_lower ''Tell me more''))
      \<and> \<not> (\<exists>k \<in> set procedure_keywords. sublist k (str_lower ''Tell me more''))
      \<and> \<not> (\<exists>k \<in> set compare_keywords. sublist k (str_lower ''Tell me more''))
      \<and> \<not> (\<exists>k \<in> set fact_keywords. sublist k (str_lower ''Tell me more''))"
    by code_simp
  have h6: "str_lower ''WHAT IS X?'' = str_lower ''What is X?''"
    by code_simp
  have c1: "classify_question_type ''Summarize the steps'' = (''Summary'', 40)"
    using classify_question_type_priority [of "''Summarize the steps''"] h1 by blast
  have c2: "classify_question_type ''How do I reset it?'' = (''Procedure'', 40)"
    using classify_question_type_priority [of "''How do I reset it?''"] h2 by blast
  have c3: "classify_question_type ''Compare A and B'' = (''Compare/Analyze'', 30)"
    using classify_question_type_priority [of "''Compare A and B''"] h3 by blast
  have c4: "classify_question_type ''What is X?'' = (''Fact'', 8)"
    using classify_question_type_priority [of "''What is X?''"] h4 by blast
  have c5: "classify_question_type ''Tell me more'' = (''Default'', 25)"
    using classify_question_type_priority [of "''Tell me more''"] h5 by blast
  have c6: "classify_question_type ''WHAT IS X?'' = classify_question_type ''What is X?''"
    using classify_question_type_priority [of "''What is X?''" "''WHAT IS X?''"] h6 by blast
  from h1 h1' c1 c2 c3 h4 c4 c5 h6 c6 show ?thesis
    by simp
qed

text \<open>A string that holds \<open>always\<close> holds the Procedure keyword \<open>way\<close>.\<close>

lemma sublist_way_always: "sublist ''always'' s \<Longrightarrow> sublist ''way'' s"
proof -
  assume "sublist ''always'' s"
  then obtain ps ss where "s = ps @ ''always'' @ ss"
    by (auto simp: sublist_def)
  then have "s = (ps @ ''al'') @ ''way'' @ (''s'' @ ss)"
    by simp
  then show ?thesis
    unfolding sublist_def by blast
qed

text \<open>
  Claim C10: a keyword counts wherever it occurs in the lower-cased question, also inside
  a longer word: if the lower-cased question is \<open>p @ k @ s\<close> for a keyword \<open>k\<close> of a
  category and no earlier category has a keyword in it, that category is the result. So
  every question that holds \<open>always\<close> and no Summary keyword is classified
  \<open>('Procedure', 40)\<close>, and every question that holds \<open>different\<close> and no Summary or
  Procedure keyword is classified \<open>('Compare/Analyze', 30)\<close>.
\<close>

theorem classify_question_type_substring:
  "(k \<in> set summary_keywords \<and> str_lower question = p @ k @ s
      \<longrightarrow> classify_question_type question = (''Summary'', 40))
   \<and> (k \<in> set procedure_keywords \<and> str_lower question = p @ k @ s
       \<and> \<not> (\<exists>k' \<in> set summary_keywords. sublist k' (str_lower question))
      \<longrightarrow> classify_question_type question = (''Procedure'', 40))
   \<and> (k \<in> set compare_keywords \<and> str_lower question = p @ k @ s
       \<and> \<not> (\<exists>k' \<in> set summary_keywords. sublist k' (str_lower question))
       \<and> \<not> (\<exists>k' \<in> set procedure_keywords. sublist k' (str_lower question))
      \<longrightarrow> classify_question_type question = (''Compare/Analyze'', 30))
   \<and> (sublist ''always'' (str_lower question)
       \<and> \<not> (\<exists>k' \<in> set summary_keywords. sublist k' (str_lower question))
      \<longrightarrow> classify_question_type question = (''Procedure'', 40))
   \<and> (sublist ''different'' (str_lower question)
       \<and> \<not> (\<exists>k' \<in> set summary_keywords. sublist k' (str_lower question))
       \<and> \<not> (\<exists>k' \<in> set procedure_keywords. sublist k' (str_lower question))
      \<longrightarrow> classify_question_type question = (''Compare/Analyze'', 30))"
proof -
  have sub: "sublist k (str_lower question)" if "str_lower question = p @ k @ s"
    using that by (auto simp: sublist_def)
  have way: "\<exists>k' \<in> set procedure_keywords. sublist k' (str_lower question)"
    if "sublist ''always'' (str_lower question)"
    using sublist_way_always [OF that] by (simp add: procedure_keywords_def)
  have diff: "\<exists>k' \<in> set compare_keywords. sublist k' (str_lower question)"
    if "sublist ''different'' (str_lower question)"
    using that by (simp add: compare_keywords_def)
  have c: "classify_question_type question =
     (if \<exists>k' \<in> set summary_keywords. sublist k' (str_lower question) then (''Summary'', 40)
      else if \<exists>k' \<in> set procedure_keywords. sublist k' (str_lower question) then (''Procedure'', 40)
      else if \<exists>k' \<in> set compare_keywords. sublist k' (str_lower question) then (''Compare/Analyze'', 30)
      else if (\<exists>k' \<in> set fact_keywords. sublist k' (str_lower question))
               \<and> length (split_whitespace question) < 10 then (''Fact'', 8)
      else (''Default'', 25))"
    by (simp add: classify_question_type_def list_ex_iff str_in_sublist Let_def)
  show ?thesis
    using sub way diff unfolding c by auto
qed

theorem classify_question_type_substring_witness:
  "''step'' \<in> set procedure_keywords
   \<and> str_lower ''Doorstep?'' = ''door'' @ ''step'' @ ''?''
   \<and> classify_question_type ''Doorstep?'' = (''Procedure'', 40)
   \<and> sublist ''always'' (str_lower ''Is it ALWAYS on?'')
   \<and> classify_question_type ''Is it ALWAYS on?'' = (''Procedure'', 40)
   \<and> sublist ''different'' (str_lower ''Indifferently?'')
   \<and> classify_question_type ''Indifferently?'' = (''Compare/Analyze'', 30)
   \<and> ''overview'' \<in> set summary_keywords
   \<and> str_lower ''Overviews'' = [] @ ''overview'' @ ''s''
   \<and> classify_question_type ''Overviews'' = (''Summary'', 40)"
proof -
  have h1: "''step'' \<in> set procedure_keywords
      \<and> str_lower ''Doorstep?'' = ''door'' @ ''step'' @ ''?''
      \<and> \<not> (\<exists>k' \<in> set summary_keywords. sublist k' (str_lower ''Doorstep?''))"
    by code_simp
  have h2: "sublist ''always'' (str_lower ''Is it ALWAYS on?'')
      \<and> \<not> (\<exists>k' \<in> set summary_keywords. sublist k' (str_lower ''Is it ALWAYS on?''))"
    by code_simp
  have h3: "sublist ''different'' (str_lower ''Indifferently?'')
      \<and> \<not> (\<exists>k' \<in> set summary_keywords. sublist k' (str_lower ''Indifferently?''))
      \<and> \<not> (\<exists>k' \<in> set procedure_keywords. sublist k' (str_lower ''Indifferently?''))"
    by code_simp
  have h4: "''overview'' \<in> set summary_keywords
      \<and> str_lower ''Overviews'' = [] @ ''overview'' @ ''s''"
    by code_simp
  have c1: "classify_question_type ''Doorstep?'' = (''Procedure'', 40)"
    using classify_question_type_substring [of "''step''" "''Doorstep?''" "''door''" "''?''"] h1
    by blast
  have c2: "classify_question_type ''Is it ALWAYS on?'' = (''Procedure'', 40)"
    using classify_question_type_substring [of "''step''" "''Is it ALWAYS on?''" "[]" "[]"] h2
    by blast
  have c3: "classify_question_type ''Indifferently?'' = (''Compare/Analyze'', 30)"
    using classify_question_type_substring [of "''step''" "''Indifferently?''" "[]" "[]"] h3
    by blast
  have c4: "classify_question_type ''Overviews'' = (''Summary'', 40)"
    using classify_question_type_substring [of "''overview''" "''Overviews''" "[]" "''s''"] h4
    by blast
  from h1 h2 h3 h4 c1 c2 c3 c4 show ?thesis
    by blast
qed

section \<open>Properties of \<open>add_documents\<close>\<close>

text \<open>
  Claim C8. The collection is the external vector database; its \<open>add\<close> is a parameter,
  and what is assumed of it is that it refuses, with a \<open>ValueError\<close>, a request whose
  number of embeddings differs from its number of identifiers. Then \<open>add_documents\<close>
  fails with a \<open>ValueError\<close> whenever the embeddings are not supplied (before the
  collection is reached) or their number differs from the number of chunks. It never
  computes embeddings: the embeddings supplied are handed on unchanged, with the texts,
  the metadata and one fresh identifier per chunk. With embeddings of matching number
  \<open>add_documents\<close> raises nothing of its own: its outcome is that of the collection's
  \<open>add\<close> on this request.
\<close>

theorem add_documents_embeddings:
  assumes "\<forall>request collection.
             length (add_embeddings_arg request) \<noteq> length (add_ids_arg request)
             \<longrightarrow> (\<exists>msg. collection_add request collection = Inl (ValueError msg))"
  shows "add_documents collection_add uuid4 collection chunks pdf_filename None =
           Inl (ValueError
             ''Embeddings are required. Please provide embeddings when adding documents.'')
     \<and> (length embs \<noteq> length chunks \<longrightarrow>
          (\<exists>msg. add_documents collection_add uuid4 collection chunks pdf_filename (Some embs)
                   = Inl (ValueError msg)))
     \<and> add_documents collection_add uuid4 collection chunks pdf_filename (Some embs) =
         collection_add
           \<lparr>add_documents_arg = map ch_text chunks,
            add_metadatas_arg = map (\<lambda>chunk.
                \<lparr>sm_pdf_filename = pdf_filename,
                 sm_page = ch_page chunk,
                 sm_chunk_index = ch_chunk_index chunk,
                 sm_total_pages = (case ch_total_pages chunk of None \<Rightarrow> 0 | Some n \<Rightarrow> n)\<rparr>) chunks,
            add_ids_arg = map uuid4 [0..<length chunks],
            add_embeddings_arg = embs\<rparr> collection"
proof -
  let ?request =
    "\<lparr>add_documents_arg = map ch_text chunks,
      add_metadatas_arg = map (\<lambda>chunk.
          \<lparr>sm_pdf_filename = pdf_filename,
           sm_page = ch_page chunk,
           sm_chunk_index = ch_chunk_index chunk,
           sm_total_pages = (case ch_total_pages chunk of None \<Rightarrow> 0 | Some n \<Rightarrow> n)\<rparr>) chunks,
      add_ids_arg = map uuid4 [0..<length chunks],
      add_embeddings_arg = embs\<rparr>"
  have n: "add_documents collection_add uuid4 collection chunks pdf_filename None =
           Inl (ValueError
             ''Embeddings are required. Please provide embeddings when adding documents.'')"
    by (simp add: add_documents_def)
  have s: "add_documents collection_add uuid4 collection chunks pdf_filename (Some embs) =
         collection_add ?request collection"
    by (simp add: add_documents_def)
  have m: "\<exists>msg. add_documents collection_add uuid4 collection chunks pdf_filename (Some embs)
                   = Inl (ValueError msg)"
    if "length embs \<noteq> length chunks"
  proof -
    have "length (add_embeddings_arg ?request) \<noteq> length (add_ids_arg ?request)"
      using that by simp
    then have "\<exists>msg. collection_add ?request collection = Inl (ValueError msg)"
      using assms by blast
    then show ?thesis
      by (simp only: s)
  qed
  from n m s show ?thesis
    by blast
qed

text \<open>
  A collection that checks the numbers and otherwise stores the request: one chunk with
  no embedding vector is refused, one chunk with one vector is stored, and without
  embeddings the error is that of \<open>add_documents\<close>.
\<close>

theorem add_documents_embeddings_witness:
  "length ([] :: real list list)
       \<noteq> length [\<lparr>ch_text = ''t'', ch_page = 1, ch_chunk_index = 0, ch_total_pages = Some 1\<rparr>]
   \<and> (\<exists>msg.
        add_documents
          (\<lambda>request collection.
              if length (add_embeddings_arg request) \<noteq> length (add_ids_arg request)
              then Inl (ValueError ''Number of embeddings must match number of ids'')
              else Inr (request # collection))
          (\<lambda>i. ''id'') []
          [\<lparr>ch_text = ''t'', ch_page = 1, ch_chunk_index = 0, ch_total_pages = Some 1\<rparr>]
          ''a.pdf'' (Some []) = Inl (ValueError msg))
   \<and> add_documents
          (\<lambda>request collection.
              if length (add_embeddings_arg request) \<noteq> length (add_ids_arg request)
              then Inl (ValueError ''Number of embeddings must match number of ids'')
              else Inr (request # collection))
          (\<lambda>i. ''id'') []
          [\<lparr>ch_text = ''t'', ch_page = 1, ch_chunk_index = 0, ch_total_pages = Some 1\<rparr>]
          ''a.pdf'' (Some [[0.5]]) =
       Inr [\<lparr>add_documents_arg = [''t''],
             add_metadatas_arg =
               [\<lparr>sm_pdf_filename = ''a.pdf'', sm_page = 1, sm_chunk_index = 0,
                 sm_total_pages = 1\<rparr>],
             add_ids_arg = [''id''],
             add_embeddings_arg = [[0.5]]\<rparr>]
   \<and> add_documents
          (\<lambda>request collection.
              if length (add_embeddings_arg request) \<noteq> length (add_ids_arg request)
              then Inl (ValueError ''Number of embeddings must match number of ids'')
              else Inr (request # collection))
          (\<lambda>i. ''id'') []
          [\<lparr>ch_text = ''t'', ch_page = 1, ch_chunk_index = 0, ch_total_pages = Some 1\<rparr>]
          ''a.pdf'' None =
       Inl (ValueError
             ''Embeddings are required. Please provide embeddings when adding documents.'')"
proof -
  let ?add = "\<lambda>request (collection :: add_request list).
              if length (add_embeddings_arg request) \<noteq> length (add_ids_arg request)
              then Inl (ValueError ''Number of embeddings must match number of ids'')
              else Inr (request # collection)"
  let ?chunks = "[\<lparr>ch_text = ''t'', ch_page = 1, ch_chunk_index = 0, ch_total_pages = Some 1\<rparr>]"
  have h: "\<forall>request collection.
             length (add_embeddings_arg request) \<noteq> length (add_ids_arg request)
             \<longrightarrow> (\<exists>msg. ?add request collection = Inl (ValueError msg))"
    by simp
  have l: "length ([] :: real list list) \<noteq> length ?chunks"
    by simp
  have a: "\<exists>msg. add_documents ?add (\<lambda>i. ''id'') [] ?chunks ''a.pdf'' (Some []) =
      Inl (ValueError msg)"
    using add_documents_embeddings
            [of ?add "\<lambda>i. ''id''" "[]" ?chunks "''a.pdf''" "[]", OF h] l
    by blast
  have b: "add_documents ?add (\<lambda>i. ''id'') [] ?chunks ''a.pdf'' (Some [[0.5]]) =
       Inr [\<lparr>add_documents_arg = [''t''],
             add_metadatas_arg =
               [\<lparr>sm_pdf_filename = ''a.pdf'', sm_page = 1, sm_chunk_index = 0,
                 sm_total_pages = 1\<rparr>],
             add_ids_arg = [''id''],
             add_embeddings_arg = [[0.5]]\<rparr>]"
    using add_documents_embeddings
            [of ?add "\<lambda>i. ''id''" "[]" ?chunks "''a.pdf''" "[[0.5]]", OF h]
    by simp
  have c: "add_documents ?add (\<lambda>i. ''id'') [] ?chunks ''a.pdf'' None =
       Inl (ValueError
             ''Embeddings are required. Please provide embeddings when adding documents.'')"
    using add_documents_embeddings
            [of ?add "\<lambda>i. ''id''" "[]" ?chunks "''a.pdf''" "[]", OF h]
    by blast
  from l a b c show ?thesis
    by simp
qed

section \<open>Properties of \<open>retrieve_relevant_chunks\<close>\<close>

lemma retrieve_loop_filter:
  assumes "\<And>i. i \<in> set is \<Longrightarrow> distance_at results i = Inr (dists ! i)"
      and "\<And>i. i \<in> set is \<Longrightarrow> metadata_at results i = Inr (metas0 ! i)"
  shows "retrieve_loop results docs0 is acc =
     Inr (acc @ map (\<lambda>i. \<lparr>rc_text = docs0 ! i, rc_metadata = metas0 ! i, rc_distance = dists ! i\<rparr>)
            (filter (\<lambda>i. case dists ! i of None \<Rightarrow> True | Some x \<Rightarrow> x < 0.8) is))"
  using assms
proof (induction "is" arbitrary: acc)
  case Nil
  then show ?case by simp
next
  case (Cons i "is")
  show ?case
  proof (cases "dists ! i")
    case None
    with Cons show ?thesis by simp
  next
    case (Some d)
    with Cons show ?thesis by simp
  qed
qed

lemma zip3_nth:
  assumes "length ys = length xs" and "length zs = length xs"
  shows "zip xs (zip ys zs) = map (\<lambda>i. (xs ! i, ys ! i, zs ! i)) [0..<length xs]"
  using assms by (intro nth_equalityI) simp_all

text \<open>
  Claim C2: for a query result with documents, with a metadata entry for every
  document, and with distances either absent or given for every document, \<open>retrieve_relevant_chunks\<close>
  returns, in their order, exactly the chunks whose distance is absent or strictly below
  \<open>0.8\<close>. \<open>dists\<close> is the distance the loop reads for each document.
\<close>

theorem retrieve_relevant_chunks_threshold:
  assumes "qr_documents results = Present (docs0 # docs_rest)"
      and "qr_metadatas results = Present (metas0 # metas_rest)"
      and "length metas0 = length docs0"
      and "dists = (case qr_distances results of
                      Missing \<Rightarrow> replicate (length docs0) None
                    | PyNone \<Rightarrow> replicate (length docs0) None
                    | Present [] \<Rightarrow> replicate (length docs0) None
                    | Present (d0 # _) \<Rightarrow> map Some d0)"
      and "length dists = length docs0"
  shows "retrieve_relevant_chunks results =
     Inr (map (\<lambda>(t, m, d). \<lparr>rc_text = t, rc_metadata = m, rc_distance = d\<rparr>)
            (filter (\<lambda>(t, m, d). case d of None \<Rightarrow> True | Some x \<Rightarrow> x < 0.8)
               (zip docs0 (zip metas0 dists))))"
proof -
  have d: "distance_at results i = Inr (dists ! i)" if "i \<in> set [0..<length docs0]" for i
    using that assms(4,5)
    by (auto simp: distance_at_def split: py_entry.splits list.splits)
  have m: "metadata_at results i = Inr (metas0 ! i)" if "i \<in> set [0..<length docs0]" for i
    using that assms(2,3) by (simp add: metadata_at_def)
  have "retrieve_relevant_chunks results = retrieve_loop results docs0 [0..<length docs0] []"
    using assms(1) by (cases docs0) (simp_all add: retrieve_relevant_chunks_def)
  also have "\<dots> =
     Inr ([] @ map (\<lambda>i. \<lparr>rc_text = docs0 ! i, rc_metadata = metas0 ! i, rc_distance = dists ! i\<rparr>)
            (filter (\<lambda>i. case dists ! i of None \<Rightarrow> True | Some x \<Rightarrow> x < 0.8)
               [0..<length docs0]))"
    using d m by (rule retrieve_loop_filter)
  also have "\<dots> =
     Inr (map (\<lambda>(t, m, d). \<lparr>rc_text = t, rc_metadata = m, rc_distance = d\<rparr>)
            (filter (\<lambda>(t, m, d). case d of None \<Rightarrow> True | Some x \<Rightarrow> x < 0.8)
               (zip docs0 (zip metas0 dists))))"
    using assms(3,5)
    by (simp only: zip3_nth filter_map map_map comp_def case_prod_conv append_Nil)
  finally show ?thesis .
qed

theorem retrieve_relevant_chunks_threshold_witness:
  "retrieve_relevant_chunks
     \<lparr>qr_documents = Present [[''a'', ''b'', ''c'']],
      qr_metadatas = Present [[\<lparr>md_pdf_filename = Some ''x.pdf'', md_page = Some (PyInt 1)\<rparr>,
                            \<lparr>md_pdf_filename = Some ''x.pdf'', md_page = Some (PyInt 2)\<rparr>,
                            \<lparr>md_pdf_filename = Some ''x.pdf'', md_page = Some (PyInt 3)\<rparr>]],
      qr_distances = Present [[0.8, 0.79, 0.1]]\<rparr> =
     Inr [\<lparr>rc_text = ''b'',
           rc_metadata = \<lparr>md_pdf_filename = Some ''x.pdf'', md_page = Some (PyInt 2)\<rparr>,
           rc_distance = Some 0.79\<rparr>,
          \<lparr>rc_text = ''c'',
           rc_metadata = \<lparr>md_pdf_filename = Some ''x.pdf'', md_page = Some (PyInt 3)\<rparr>,
           rc_distance = Some 0.1\<rparr>]
   \<and> retrieve_relevant_chunks
     \<lparr>qr_documents = Present [[''a'']],
      qr_metadatas = Present [[\<lparr>md_pdf_filename = Some ''x.pdf'', md_page = Some (PyInt 1)\<rparr>]],
      qr_distances = PyNone\<rparr> =
     Inr [\<lparr>rc_text = ''a'',
           rc_metadata = \<lparr>md_pdf_filename = Some ''x.pdf'', md_page = Some (PyInt 1)\<rparr>,
           rc_distance = None\<rparr>]"
  using retrieve_relevant_chunks_threshold
          [of "\<lparr>qr_documents = Present [[''a'', ''b'', ''c'']],
      qr_metadatas = Present [[\<lparr>md_pdf_filename = Some ''x.pdf'', md_page = Some (PyInt 1)\<rparr>,
                            \<lparr>md_pdf_filename = Some ''x.pdf'', md_page = Some (PyInt 2)\<rparr>,
                            \<lparr>md_pdf_filename = Some ''x.pdf'', md_page = Some (PyInt 3)\<rparr>]],
      qr_distances = Present [[0.8, 0.79, 0.1]]\<rparr>"
              "[''a'', ''b'', ''c'']" "[]"
              "[\<lparr>md_pdf_filename = Some ''x.pdf'', md_page = Some (PyInt 1)\<rparr>,
                            \<lparr>md_pdf_filename = Some ''x.pdf'', md_page = Some (PyInt 2)\<rparr>,
                            \<lparr>md_pdf_filename = Some ''x.pdf'', md_page = Some (PyInt 3)\<rparr>]" "[]"
              "[Some 0.8, Some 0.79, Some 0.1]"]
        retrieve_relevant_chunks_threshold
          [of "\<lparr>qr_documents = Present [[''a'']],
      qr_metadatas = Present [[\<lparr>md_pdf_filename = Some ''x.pdf'', md_page = Some (PyInt 1)\<rparr>]],
      qr_distances = PyNone\<rparr>"
              "[''a'']" "[]"
              "[\<lparr>md_pdf_filename = Some ''x.pdf'', md_page = Some (PyInt 1)\<rparr>]" "[]"
              "[None]"]
  by simp

section \<open>Properties of \<open>generate_answer\<close>\<close>

text \<open>
  Claim C7: with no context chunks \<open>generate_answer\<close> returns the fixed answer and no
  citations, whatever the question, the question type and the completion service are,
  and the list of requests sent to the service is empty.
\<close>

theorem generate_answer_no_chunks:
  "generate_answer client llm_model question [] question_type =
     ([], Inr \<lparr>ar_answer =
                 ''I couldn't find relevant information in the uploaded PDFs to answer your question.'',
               ar_citations = []\<rparr>)"
  by (simp add: generate_answer_def no_information_answer_def)

lemma grouped_keys: "map fst (grouped chunks) = rev (remdups (rev (map source_key_of chunks)))"
  by (simp add: grouped_def comp_def case_prod_unfold)

lemma grouped_snoc_seen:
  assumes "source_key_of c \<in> set (map fst (grouped done))"
  shows "map (\<lambda>(k, info).
                  if k = source_key_of c
                  then (k, info\<lparr>si_chunks := si_chunks info @ [rc_text c]\<rparr>)
                  else (k, info)) (grouped done) = grouped (done @ [c])"
proof -
  have "source_key_of c \<in> source_key_of ` set done"
    using assms by (simp add: grouped_keys)
  then show ?thesis
    by (auto simp: grouped_def case_prod_unfold)
qed

lemma grouped_snoc_new:
  assumes "source_key_of c \<notin> set (map fst (grouped done))"
  shows "grouped done @
           [(source_key_of c,
             \<lparr>si_source_num = length (grouped done) + 1,
              si_chunks = [rc_text c],
              si_pdf_filename = fst (source_key_of c),
              si_page = snd (source_key_of c)\<rparr>)] = grouped (done @ [c])"
proof -
  let ?ks = "rev (remdups (rev (map source_key_of done)))"
  let ?F = "\<lambda>(i, k). (k, \<lparr>si_source_num = i + 1,
                         si_chunks = map rc_text (filter (\<lambda>x. source_key_of x = k) (done @ [c])),
                         si_pdf_filename = fst k, si_page = snd k\<rparr>)"
  have ni: "source_key_of c \<notin> source_key_of ` set done"
    using assms by (simp add: grouped_keys)
  then have n: "\<forall>x \<in> set done. source_key_of x \<noteq> source_key_of c"
    by (metis imageI)
  then have f: "filter (\<lambda>x. source_key_of x = source_key_of c) done = []"
    by (auto simp: filter_empty_conv)
  have e: "k \<noteq> source_key_of c" if "(i, k) \<in> set (enumerate 0 ?ks)" for i k
  proof -
    have "i < length ?ks \<and> ?ks ! i = k"
      using that by (simp add: in_set_enumerate_eq)
    then have "k \<in> set ?ks"
      by (metis nth_mem)
    then show ?thesis
      using n by auto
  qed
  have m: "map ?F (enumerate 0 ?ks) = grouped done"
    unfolding grouped_def
  proof (intro map_cong refl)
    fix p
    assume "p \<in> set (enumerate 0 ?ks)"
    then have "snd p \<noteq> source_key_of c"
      using e [of "fst p" "snd p"] by simp
    then show "?F p
        = (case p of (i, k) \<Rightarrow> (k, \<lparr>si_source_num = i + 1,
                         si_chunks = map rc_text (filter (\<lambda>x. source_key_of x = k) done),
                         si_pdf_filename = fst k, si_page = snd k\<rparr>))"
      by (simp add: case_prod_unfold)
  qed
  have l: "length (grouped done) = length ?ks"
    by (simp add: grouped_def)
  have "grouped (done @ [c]) = map ?F (enumerate 0 (?ks @ [source_key_of c]))"
    using ni by (simp add: grouped_def)
  also have "\<dots> = map ?F (enumerate 0 ?ks) @ [?F (length ?ks, source_key_of c)]"
    by (simp add: enumerate_append_eq)
  also have "?F (length ?ks, source_key_of c) =
      (source_key_of c,
             \<lparr>si_source_num = length (grouped done) + 1,
              si_chunks = [rc_text c],
              si_pdf_filename = fst (source_key_of c),
              si_page = snd (source_key_of c)\<rparr>)"
    using f l by simp
  finally show ?thesis
    using m by simp
qed

lemma collect_sources_grouped:
  "collect_sources cs (grouped done) (length (grouped done) + 1) = grouped (done @ cs)"
proof (induction cs arbitrary: "done")
  case Nil
  then show ?case by simp
next
  case (Cons c cs)
  show ?case
  proof (cases "source_key_of c \<in> set (map fst (grouped done))")
    case True
    have l: "length (grouped (done @ [c])) = length (grouped done)"
      using grouped_snoc_seen [OF True, symmetric] by simp
    show ?thesis
      using True Cons [of "done @ [c]"] grouped_snoc_seen [OF True] l
      by (simp add: Let_def)
  next
    case False
    have l: "length (grouped (done @ [c])) = length (grouped done) + 1"
      using grouped_snoc_new [OF False, symmetric] by simp
    show ?thesis
      using False Cons [of "done @ [c]"] grouped_snoc_new [OF False] l
      by (simp add: Let_def)
  qed
qed

lemma collect_sources_eq_grouped: "collect_sources chunks [] 1 = grouped chunks"
  using collect_sources_grouped [of chunks "[]"] by (simp add: grouped_def)

lemma build_context_nonempty:
  assumes "\<forall>p \<in> set us. si_chunks (snd p) \<noteq> []"
  shows "build_context us parts cits =
     Inr (parts @ map (\<lambda>p. context_line (snd p)) us,
          cits @ map (\<lambda>p. \<lparr>c_source = si_source_num (snd p),
                             c_pdf_filename = si_pdf_filename (snd p),
                             c_page = si_page (snd p),
                             c_text_snippet =
                               (if length (hd (si_chunks (snd p))) > 200
                                then take 200 (hd (si_chunks (snd p))) @ ''...''
                                else hd (si_chunks (snd p)))\<rparr>) us)"
  using assms
proof (induction us arbitrary: parts cits)
  case Nil
  then show ?case by simp
next
  case (Cons p us)
  obtain k info where p: "p = (k, info)"
    by (cases p)
  with Cons.prems obtain first others where f: "si_chunks info = first # others"
    by (cases "si_chunks info") auto
  show ?case
    using Cons.IH Cons.prems p f by (simp add: Let_def)
qed

lemma grouped_chunks_nonempty: "\<forall>p \<in> set (grouped chunks). si_chunks (snd p) \<noteq> []"
proof
  fix p
  assume "p \<in> set (grouped chunks)"
  then obtain i k where ik: "(i, k) \<in> set (enumerate 0 (rev (remdups (rev (map source_key_of chunks)))))"
    and p: "p = (k, \<lparr>si_source_num = i + 1,
                         si_chunks = map rc_text (filter (\<lambda>c. source_key_of c = k) chunks),
                         si_pdf_filename = fst k, si_page = snd k\<rparr>)"
    by (auto simp: grouped_def)
  have "i < length (rev (remdups (rev (map source_key_of chunks))))
        \<and> rev (remdups (rev (map source_key_of chunks))) ! i = k"
    using ik by (simp add: in_set_enumerate_eq)
  then have "k \<in> set (rev (remdups (rev (map source_key_of chunks))))"
    by (metis nth_mem)
  then have "k \<in> source_key_of ` set chunks"
    by simp
  then have "filter (\<lambda>c. source_key_of c = k) chunks \<noteq> []"
    by (auto simp: filter_empty_conv)
  with p show "si_chunks (snd p) \<noteq> []"
    by simp
qed

lemma build_context_grouped:
  "build_context (grouped chunks) [] [] =
     Inr (map (\<lambda>p. context_line (snd p)) (grouped chunks),
          map (\<lambda>p. \<lparr>c_source = si_source_num (snd p),
                      c_pdf_filename = si_pdf_filename (snd p),
                      c_page = si_page (snd p),
                      c_text_snippet =
                        (if length (hd (si_chunks (snd p))) > 200
                         then take 200 (hd (si_chunks (snd p))) @ ''...''
                         else hd (si_chunks (snd p)))\<rparr>) (grouped chunks))"
  using build_context_nonempty [OF grouped_chunks_nonempty, of chunks "[]" "[]"] by simp


text \<open>
  Claim C3: for a non-empty list of chunks, \<open>keys\<close> are the keys \<open>(pdf_filename, page)\<close>
  of the chunks in first-seen order, each once, and \<open>texts k\<close> are the texts of the chunks
  with key \<open>k\<close> in the order of the list. The sources are the keys in that order, numbered
  from 1, each with all its texts; there is one context line per key, with the texts
  joined by single spaces, and one citation per key, with the snippet of the first text.
  The request sent to the completion service carries these context lines.
\<close>

theorem generate_answer_groups_sources:
  assumes "context_chunks \<noteq> []"
      and "keys = rev (remdups (rev (map source_key_of context_chunks)))"
      and "texts = (\<lambda>k. map rc_text (filter (\<lambda>c. source_key_of c = k) context_chunks))"
      and "context_parts =
             map (\<lambda>(i, k). ''[Source '' @ str_nat (i + 1) @ '' - Page '' @ str_value (snd k)
                              @ '']: '' @ str_join '' '' (texts k)) (enumerate 0 keys)"
  shows "distinct keys \<and> set keys = source_key_of ` set context_chunks
     \<and> (\<forall>k \<in> set keys. texts k \<noteq> [])
     \<and> collect_sources context_chunks [] 1 =
         map (\<lambda>(i, k). (k, \<lparr>si_source_num = i + 1, si_chunks = texts k,
                             si_pdf_filename = fst k, si_page = snd k\<rparr>)) (enumerate 0 keys)
     \<and> build_context (collect_sources context_chunks [] 1) [] [] =
         Inr (context_parts,
              map (\<lambda>(i, k). \<lparr>c_source = i + 1, c_pdf_filename = fst k, c_page = snd k,
                               c_text_snippet =
                                 (if length (hd (texts k)) > 200
                                  then take 200 (hd (texts k)) @ ''...''
                                  else hd (texts k))\<rparr>) (enumerate 0 keys))
     \<and> fst (generate_answer client llm_model question context_chunks question_type) =
         [\<lparr>rq_model = llm_model, rq_system = system_message,
           rq_user = build_prompt question question_type
                       (str_join ''\<newline>\<newline>'' context_parts) (length keys),
           rq_temperature = 0.7, rq_max_tokens = 1000\<rparr>]"
proof -
  have g: "collect_sources context_chunks [] 1 =
         map (\<lambda>(i, k). (k, \<lparr>si_source_num = i + 1, si_chunks = texts k,
                             si_pdf_filename = fst k, si_page = snd k\<rparr>)) (enumerate 0 keys)"
    by (simp only: collect_sources_eq_grouped grouped_def assms(2,3))
  have d: "distinct keys" "set keys = source_key_of ` set context_chunks"
    by (simp_all add: assms(2))
  have n: "\<forall>k \<in> set keys. texts k \<noteq> []"
    using d(2) by (auto simp: assms(3) filter_empty_conv)
  have b: "build_context (collect_sources context_chunks [] 1) [] [] =
         Inr (context_parts,
              map (\<lambda>(i, k). \<lparr>c_source = i + 1, c_pdf_filename = fst k, c_page = snd k,
                               c_text_snippet =
                                 (if length (hd (texts k)) > 200
                                  then take 200 (hd (texts k)) @ ''...''
                                  else hd (texts k))\<rparr>) (enumerate 0 keys))"
    unfolding collect_sources_eq_grouped build_context_grouped
    by (simp add: grouped_def assms(2,3,4) context_line_def case_prod_unfold comp_def)
  have l: "length (collect_sources context_chunks [] 1) = length keys"
    by (simp only: g length_map length_enumerate)
  have r: "fst (generate_answer client llm_model question context_chunks question_type) =
         [\<lparr>rq_model = llm_model, rq_system = system_message,
           rq_user = build_prompt question question_type
                       (str_join ''\<newline>\<newline>'' context_parts) (length keys),
           rq_temperature = 0.7, rq_max_tokens = 1000\<rparr>]"
    using assms(1) b l
    by (simp add: generate_answer_def Let_def split: sum.splits)
  from d n g b r show ?thesis
    by blast
qed

theorem generate_answer_groups_sources_witness:
  "[\<lparr>rc_text = ''alpha'',
     rc_metadata = \<lparr>md_pdf_filename = Some ''a.pdf'', md_page = Some (PyInt 1)\<rparr>,
     rc_distance = Some 0.1\<rparr>,
    \<lparr>rc_text = ''gamma'',
     rc_metadata = \<lparr>md_pdf_filename = Some ''b.pdf'', md_page = Some (PyInt 2)\<rparr>,
     rc_distance = Some 0.2\<rparr>,
    \<lparr>rc_text = ''beta'',
     rc_metadata = \<lparr>md_pdf_filename = Some ''a.pdf'', md_page = Some (PyInt 1)\<rparr>,
     rc_distance = Some 0.3\<rparr>] \<noteq> []
   \<and> build_context
       (collect_sources
          [\<lparr>rc_text = ''alpha'',
            rc_metadata = \<lparr>md_pdf_filename = Some ''a.pdf'', md_page = Some (PyInt 1)\<rparr>,
            rc_distance = Some 0.1\<rparr>,
           \<lparr>rc_text = ''gamma'',
            rc_metadata = \<lparr>md_pdf_filename = Some ''b.pdf'', md_page = Some (PyInt 2)\<rparr>,
            rc_distance = Some 0.2\<rparr>,
           \<lparr>rc_text = ''beta'',
            rc_metadata = \<lparr>md_pdf_filename = Some ''a.pdf'', md_page = Some (PyInt 1)\<rparr>,
            rc_distance = Some 0.3\<rparr>] [] 1) [] [] =
     Inr ([''[Source 1 - Page 1]: alpha beta'', ''[Source 2 - Page 2]: gamma''],
          [\<lparr>c_source = 1, c_pdf_filename = ''a.pdf'', c_page = PyInt 1,
            c_text_snippet = ''alpha''\<rparr>,
           \<lparr>c_source = 2, c_pdf_filename = ''b.pdf'', c_page = PyInt 2,
            c_text_snippet = ''gamma''\<rparr>])"
proof -
  let ?chunks =
    "[\<lparr>rc_text = ''alpha'',
       rc_metadata = \<lparr>md_pdf_filename = Some ''a.pdf'', md_page = Some (PyInt 1)\<rparr>,
       rc_distance = Some 0.1\<rparr>,
      \<lparr>rc_text = ''gamma'',
       rc_metadata = \<lparr>md_pdf_filename = Some ''b.pdf'', md_page = Some (PyInt 2)\<rparr>,
       rc_distance = Some 0.2\<rparr>,
      \<lparr>rc_text = ''beta'',
       rc_metadata = \<lparr>md_pdf_filename = Some ''a.pdf'', md_page = Some (PyInt 1)\<rparr>,
       rc_distance = Some 0.3\<rparr>]"
  let ?keys = "[(''a.pdf'', PyInt 1), (''b.pdf'', PyInt 2)]"
  let ?texts = "\<lambda>k. map rc_text (filter (\<lambda>c. source_key_of c = k) ?chunks)"
  let ?parts = "[''[Source 1 - Page 1]: alpha beta'', ''[Source 2 - Page 2]: gamma'']"
  have h1: "?chunks \<noteq> []"
    by simp
  have h2: "?keys = rev (remdups (rev (map source_key_of ?chunks)))"
    by (simp add: source_key_of_def)
  have h3: "?texts = ?texts"
    by simp
  have h4: "?parts =
      map (\<lambda>(i, k). ''[Source '' @ str_nat (i + 1) @ '' - Page '' @ str_value (snd k)
                       @ '']: '' @ str_join '' '' (?texts k)) (enumerate 0 ?keys)"
    by (simp add: source_key_of_def str_nat.simps str_value_def str_int_def)
  from generate_answer_groups_sources [OF h1 h2 h3 h4] show ?thesis
    by (simp add: source_key_of_def)
qed

subsection \<open>The scan of the answer\<close>










subsection \<open>Renumbering\<close>




subsection \<open>From the answer of the service to the result\<close>


















end
